theory Spec2Isabelle
  imports Complex_Main "HOL-Library.Sublist"
begin

section \<open>Python values, strings and exceptions\<close>

text \<open>
  The receipt analyzer (\<^verbatim>\<open>src/azure_receipt_analyzer.py\<close>) is dynamically typed Python.
  The values that flow through the normalizers are \<^verbatim>\<open>None\<close>, strings, integers and floats.
  A string is a list of code points below 256; the character classes used by the source
  (\<^verbatim>\<open>\s\<close>, \<^verbatim>\<open>\d\<close>, \<^verbatim>\<open>str.isdigit\<close>, \<^verbatim>\<open>[A-Za-z]\<close>) are written out
  on that range. Case conversion is written out for the ASCII letters; the keywords the source
  searches for are all ASCII.
\<close>

datatype 'f pyval = PNone | PStr string | PInt int | PFloat 'f

datatype exn = ValueError | TypeError | OverflowError | ZeroDivisionError | AttributeError

text \<open>
  Python floats are IEEE binary64 numbers of the interpreter, not code of the repository.
  The model takes the float primitives the source calls as a parameter: every function below
  receives a record of them, and every universally quantified theorem holds for each choice of
  the primitives, the interpreter's own included. A primitive that can raise returns an option or
  a sum.
\<close>

record 'f float_ops =
  fl_of_str :: "string \<Rightarrow> 'f option"      \<comment> \<open>\<^verbatim>\<open>float(s)\<close>; \<open>None\<close> is \<^verbatim>\<open>ValueError\<close>\<close>
  fl_of_int :: "int \<Rightarrow> 'f option"         \<comment> \<open>\<^verbatim>\<open>float(n)\<close>; \<open>None\<close> is \<^verbatim>\<open>OverflowError\<close>\<close>
  fl_to_int :: "'f \<Rightarrow> exn + int"          \<comment> \<open>\<^verbatim>\<open>int(x)\<close>; raises on nan and on infinities\<close>
  fl_str :: "'f \<Rightarrow> string"                 \<comment> \<open>\<^verbatim>\<open>str(x)\<close>\<close>
  fl_add :: "'f \<Rightarrow> 'f \<Rightarrow> 'f"
  fl_mul :: "'f \<Rightarrow> 'f \<Rightarrow> 'f"
  fl_div :: "'f \<Rightarrow> 'f \<Rightarrow> 'f option"       \<comment> \<open>\<open>None\<close> is \<^verbatim>\<open>ZeroDivisionError\<close>\<close>
  fl_round2 :: "'f \<Rightarrow> 'f"                   \<comment> \<open>\<^verbatim>\<open>round(x, 2)\<close>\<close>
  fl_eq_int :: "'f \<Rightarrow> int \<Rightarrow> bool"          \<comment> \<open>\<^verbatim>\<open>x == n\<close> for an integer \<open>n\<close>\<close>
  fl_gt_int :: "'f \<Rightarrow> int \<Rightarrow> bool"          \<comment> \<open>\<^verbatim>\<open>x > n\<close> for an integer \<open>n\<close>\<close>
  fl_zero :: "'f"                            \<comment> \<open>the literal \<^verbatim>\<open>0.0\<close>\<close>
  fl_one :: "'f"                             \<comment> \<open>the literal \<^verbatim>\<open>1.0\<close>\<close>
  fl_hundred :: "'f"                         \<comment> \<open>the divisor \<^verbatim>\<open>100\<close>, as a float\<close>
  fl_default_rate :: "'f"                    \<comment> \<open>the literal \<^verbatim>\<open>0.13\<close>\<close>

subsection \<open>Characters and strings\<close>

definition code_point :: "char \<Rightarrow> int" where
  "code_point c = of_char c"

definition is_ascii_digit :: "char \<Rightarrow> bool" where
  \<comment> \<open>the regular expression class \<^verbatim>\<open>\d\<close>\<close>
  "is_ascii_digit c = (48 \<le> code_point c \<and> code_point c \<le> 57)"

definition isdigit :: "char \<Rightarrow> bool" where
  \<comment> \<open>\<^verbatim>\<open>str.isdigit\<close>: the ASCII digits and the superscripts two, three and one\<close>
  "isdigit c = (is_ascii_digit c \<or> code_point c \<in> {178, 179, 185})"

definition is_space :: "char \<Rightarrow> bool" where
  \<comment> \<open>the regular expression class \<^verbatim>\<open>\s\<close>\<close>
  "is_space c = (code_point c \<in> {9, 10, 11, 12, 13, 28, 29, 30, 31, 32, 133, 160})"

definition is_ascii_letter :: "char \<Rightarrow> bool" where
  \<comment> \<open>the regular expression class \<^verbatim>\<open>[A-Za-z]\<close>\<close>
  "is_ascii_letter c =
     ((65 \<le> code_point c \<and> code_point c \<le> 90) \<or> (97 \<le> code_point c \<and> code_point c \<le> 122))"

definition upper_char :: "char \<Rightarrow> char" where
  "upper_char c =
     (if 97 \<le> code_point c \<and> code_point c \<le> 122 then char_of (code_point c - 32) else c)"

definition lower_char :: "char \<Rightarrow> char" where
  "lower_char c =
     (if 65 \<le> code_point c \<and> code_point c \<le> 90 then char_of (code_point c + 32) else c)"

definition upper :: "string \<Rightarrow> string" where
  "upper s = map upper_char s"

definition lower :: "string \<Rightarrow> string" where
  "lower s = map lower_char s"

definition str_in :: "string \<Rightarrow> string \<Rightarrow> bool" where
  \<comment> \<open>\<^verbatim>\<open>needle in haystack\<close> on strings\<close>
  "str_in needle haystack = sublist needle haystack"

definition digit_char :: "int \<Rightarrow> char" where
  "digit_char d = char_of (48 + d)"

function digits_of :: "int \<Rightarrow> string" where
  \<comment> \<open>the decimal digits of a number that is not negative\<close>
  "digits_of n = (if n < 10 then [digit_char n] else digits_of (n div 10) @ [digit_char (n mod 10)])"
  by pat_completeness auto
termination
  by (relation "measure nat") auto

declare digits_of.simps [simp del]

definition str_of_int :: "int \<Rightarrow> string" where
  \<comment> \<open>\<^verbatim>\<open>str(n)\<close> for a Python integer\<close>
  "str_of_int n = (if n < 0 then CHR ''-'' # digits_of (- n) else digits_of n)"

subsection \<open>Truthiness and \<^verbatim>\<open>str\<close>\<close>

definition truthy :: "'f float_ops \<Rightarrow> 'f pyval \<Rightarrow> bool" where
  "truthy ops v =
     (case v of PNone \<Rightarrow> False | PStr s \<Rightarrow> s \<noteq> [] | PInt n \<Rightarrow> n \<noteq> 0
      | PFloat x \<Rightarrow> \<not> fl_eq_int ops x 0)"

definition py_str :: "'f float_ops \<Rightarrow> 'f pyval \<Rightarrow> string" where
  "py_str ops v =
     (case v of PNone \<Rightarrow> ''None'' | PStr s \<Rightarrow> s | PInt n \<Rightarrow> str_of_int n
      | PFloat x \<Rightarrow> fl_str ops x)"

definition str_or_empty :: "'f float_ops \<Rightarrow> 'f pyval \<Rightarrow> string" where
  \<comment> \<open>\<^verbatim>\<open>str(value or '')\<close>\<close>
  "str_or_empty ops v = (if truthy ops v then py_str ops v else [])"

section \<open>The value normalizers\<close>

text \<open>
  \<^verbatim>\<open>_clean_quantity\<close>. The handler catches \<^verbatim>\<open>ValueError\<close> and \<^verbatim>\<open>TypeError\<close> only:
  the \<^verbatim>\<open>OverflowError\<close> of \<^verbatim>\<open>float(n)\<close> on a huge integer and of \<^verbatim>\<open>int(qty)\<close> on an
  infinity leaves the function.
\<close>

definition quantity_handler :: "exn \<Rightarrow> exn + string" where
  "quantity_handler e = (if e = ValueError \<or> e = TypeError then Inr ''1'' else Inl e)"

definition format_quantity :: "'f float_ops \<Rightarrow> 'f \<Rightarrow> exn + string" where
  \<comment> \<open>the lines after the conversion: \<^verbatim>\<open>if qty == int(qty): return str(int(qty))\<close>,
      \<^verbatim>\<open>return str(qty)\<close>\<close>
  "format_quantity ops qty =
     (case fl_to_int ops qty of
        Inl e \<Rightarrow> Inl e
      | Inr n \<Rightarrow> if fl_eq_int ops qty n then Inr (str_of_int n) else Inr (fl_str ops qty))"

definition quantity_to_float :: "'f float_ops \<Rightarrow> 'f pyval \<Rightarrow> exn + 'f" where
  "quantity_to_float ops v =
     (case v of
        PInt n \<Rightarrow> (case fl_of_int ops n of None \<Rightarrow> Inl OverflowError | Some x \<Rightarrow> Inr x)
      | PFloat x \<Rightarrow> Inr x
      | PStr s \<Rightarrow>
          (let clean_value = filter (\<lambda>c. isdigit c \<or> c = CHR ''.'') s in
           if clean_value \<noteq> [] then
             (case fl_of_str ops clean_value of None \<Rightarrow> Inl ValueError | Some x \<Rightarrow> Inr x)
           else Inr (fl_one ops))
      | PNone \<Rightarrow> Inr (fl_one ops))"

definition clean_quantity :: "'f float_ops \<Rightarrow> 'f pyval \<Rightarrow> exn + string" where
  "clean_quantity ops v =
     (if v = PNone \<or> v = PStr [] then Inr ''1''
      else
        (case quantity_to_float ops v of
           Inl e \<Rightarrow> quantity_handler e
         | Inr qty \<Rightarrow>
             (case format_quantity ops qty of
                Inl e \<Rightarrow> quantity_handler e
              | Inr s \<Rightarrow> Inr s)))"

text \<open>
  \<^verbatim>\<open>_clean_currency\<close>. The substitution \<^verbatim>\<open>re.sub(r"[$,\sA-Za-z]", "", str(value))\<close>
  deletes the dollar sign, the comma, white space and the ASCII letters.
\<close>

definition currency_noise :: "char \<Rightarrow> bool" where
  "currency_noise c = (c = CHR ''$'' \<or> c = CHR '','' \<or> is_space c \<or> is_ascii_letter c)"

definition clean_currency :: "'f float_ops \<Rightarrow> 'f pyval \<Rightarrow> exn + 'f option" where
  "clean_currency ops v =
     (if v = PNone \<or> v = PStr [] then Inr None
      else
        (case v of
           PInt n \<Rightarrow> (case fl_of_int ops n of None \<Rightarrow> Inl OverflowError | Some x \<Rightarrow> Inr (Some x))
         | PFloat x \<Rightarrow> Inr (Some x)
         | PStr s \<Rightarrow>
             (let clean_value = filter (\<lambda>c. \<not> currency_noise c) s in
              if clean_value = [] then Inr None
              else if 1 < count_list clean_value (CHR ''-'') then Inr None
              else if CHR ''-'' \<in> set clean_value \<and> \<not> prefix ''-'' clean_value then Inr None
              else (case fl_of_str ops clean_value of None \<Rightarrow> Inr None | Some x \<Rightarrow> Inr (Some x)))
         | PNone \<Rightarrow> Inr None))"

section \<open>The field extractor\<close>

text \<open>
  A field of the remote service is an object probed with \<^verbatim>\<open>hasattr\<close> and
  \<^verbatim>\<open>getattr\<close>. An attribute is either missing (\<open>NoAttr\<close>) or holds a value, which may be
  \<^verbatim>\<open>None\<close>. For \<^verbatim>\<open>kind\<close> and \<^verbatim>\<open>type\<close> the source reads with a default of
  \<^verbatim>\<open>None\<close>, so a missing attribute and a \<^verbatim>\<open>None\<close> one are the same \<open>None\<close> here.
  \<open>value_date\<close> holds the \<^verbatim>\<open>str\<close> rendering of the date, \<open>value_currency\<close> the
  \<^verbatim>\<open>amount\<close> attribute of the currency object, \<open>value_address\<close> only its presence.
\<close>

datatype 'a attr = NoAttr | Attr 'a

datatype 'f field = Field
  (kind: "string option")
  (ftype: "string option")
  (content: "string option attr")
  (value_string: "string option attr")
  (value_number: "'f option attr")
  (value_integer: "int option attr")
  (value_date: "string option attr")
  (value_phone_number: "string option attr")
  (value_country_region: "string option attr")
  (value_currency: "'f option attr")
  (value_address: "unit attr")
  (value_array: "'f field list option attr")
  (value_object: "(string \<times> 'f field) list option attr")

definition hasattr :: "'a attr \<Rightarrow> bool" where
  "hasattr a = (a \<noteq> NoAttr)"

definition str_val :: "string option attr \<Rightarrow> 'f pyval" where
  "str_val a = (case a of Attr (Some s) \<Rightarrow> PStr s | _ \<Rightarrow> PNone)"

definition float_val :: "'f option attr \<Rightarrow> 'f pyval" where
  "float_val a = (case a of Attr (Some x) \<Rightarrow> PFloat x | _ \<Rightarrow> PNone)"

definition int_val :: "int option attr \<Rightarrow> 'f pyval" where
  "int_val a = (case a of Attr (Some n) \<Rightarrow> PInt n | _ \<Rightarrow> PNone)"

definition field_type_of :: "'f field \<Rightarrow> string option" where
  \<comment> \<open>\<^verbatim>\<open>getattr(field, 'kind', None) or getattr(field, 'type', None)\<close>\<close>
  "field_type_of field =
     (case kind field of Some k \<Rightarrow> (if k \<noteq> [] then Some k else ftype field) | None \<Rightarrow> ftype field)"

definition extract_field_value :: "'f field option \<Rightarrow> 'f pyval" where
  "extract_field_value fo =
     (case fo of
        None \<Rightarrow> PNone
      | Some field \<Rightarrow>
          (let field_type = field_type_of field in
           if hasattr (content field) \<and> content field \<noteq> Attr None then str_val (content field)
           else if field_type = Some ''string'' \<and> hasattr (value_string field)
             then str_val (value_string field)
           else if field_type = Some ''number'' \<and> hasattr (value_number field)
             then float_val (value_number field)
           else if field_type = Some ''integer'' \<and> hasattr (value_integer field)
             then int_val (value_integer field)
           else if field_type = Some ''date'' \<and> hasattr (value_date field)
             then (case value_date field of Attr (Some d) \<Rightarrow> PStr d | _ \<Rightarrow> PStr ''None'')
           else if field_type = Some ''phoneNumber'' \<and> hasattr (value_phone_number field)
             then str_val (value_phone_number field)
           else if field_type = Some ''countryRegion'' \<and> hasattr (value_country_region field)
             then str_val (value_country_region field)
           else if field_type = Some ''currency'' \<and> hasattr (value_currency field)
             then float_val (value_currency field)
           else if field_type = Some ''address'' \<and> hasattr (value_address field)
             then str_val (content field)
           else PNone))"

section \<open>The categorizer\<close>

definition category_mappings :: "(string \<times> string list) list" where
  "category_mappings =
    [(''groceries'',
       [''milk'', ''bread'', ''cheese'', ''yogurt'', ''fruit'', ''vegetable'', ''meat'', ''chicken'',
        ''beef'', ''pork'', ''fish'', ''egg'', ''cereal'', ''pasta'', ''rice'', ''flour'', ''sugar'',
        ''coffee'', ''tea'', ''juice'', ''water'', ''snack'', ''chip'', ''cookie'', ''cracker'', ''nut'',
        ''bean'', ''grain'', ''produce'', ''dairy'', ''bakery'', ''deli'', ''frozen'', ''canned'',
        ''pantry'', ''spice'', ''oil'', ''vinegar'', ''sauce'', ''condiment'', ''paneer'', ''naan'',
        ''tandoori'']),
     (''household'',
       [''paper'', ''toilet'', ''tissue'', ''detergent'', ''soap'', ''cleaner'', ''cleaning'',
        ''laundry'', ''dish'', ''towel'', ''trash'', ''garbage'', ''bag'', ''battery'', ''light bulb'',
        ''candle'', ''filter'', ''storage'', ''container'', ''foil'', ''wrap'', ''ziploc'', ''vacuum'',
        ''broom'', ''mop'', ''sponge'', ''glove'', ''supply'']),
     (''personal_care'',
       [''shampoo'', ''conditioner'', ''body wash'', ''soap'', ''lotion'', ''cream'', ''deodorant'',
        ''toothpaste'', ''toothbrush'', ''floss'', ''mouthwash'', ''razor'', ''shaving'', ''makeup'',
        ''cosmetic'', ''cotton'', ''sanitizer'', ''medicine'', ''vitamin'', ''supplement'', ''bandage'',
        ''sunscreen'', ''insect repellent'', ''nail'', ''hair'']),
     (''dining'',
       [''restaurant'', ''cafe'', ''coffee shop'', ''bar'', ''pub'', ''fast food'', ''takeout'',
        ''delivery'', ''pizza'', ''burger'', ''sandwich'', ''salad'', ''breakfast'', ''lunch'',
        ''dinner'', ''meal'', ''drink'', ''beverage'', ''alcohol'', ''beer'', ''wine'', ''liquor'',
        ''cocktail'', ''appetizer'', ''dessert'', ''tip'', ''service charge'']),
     (''transportation'',
       [''gas'', ''fuel'', ''parking'', ''toll'', ''fare'', ''ticket'', ''uber'', ''lyft'', ''taxi'',
        ''cab'', ''bus'', ''train'', ''subway'', ''rental'', ''car wash'', ''oil change'',
        ''maintenance'', ''repair'', ''tire'', ''battery'', ''insurance'', ''registration'',
        ''license'', ''dmv'']),
     (''entertainment'',
       [''movie'', ''theater'', ''concert'', ''show'', ''event'', ''ticket'', ''game'', ''book'',
        ''magazine'', ''music'', ''video'', ''streaming'', ''subscription'', ''toy'', ''game'',
        ''hobby'', ''craft'', ''sport'', ''fitness'', ''gym'', ''class'', ''lesson'', ''tour'', ''park'',
        ''museum'', ''attraction''])]"

fun split_on :: "char \<Rightarrow> string \<Rightarrow> string list" where
  \<comment> \<open>\<^verbatim>\<open>s.split(sep)\<close> with a one-character separator\<close>
  "split_on sep [] = [[]]"
| "split_on sep (c # cs) =
     (if c = sep then [] # split_on sep cs
      else (case split_on sep cs of w # ws \<Rightarrow> (c # w) # ws | [] \<Rightarrow> [[c]]))"

fun capitalize :: "string \<Rightarrow> string" where
  "capitalize [] = []"
| "capitalize (c # cs) = upper_char c # lower cs"

fun join_with :: "string \<Rightarrow> string list \<Rightarrow> string" where
  "join_with sep [] = []"
| "join_with sep [w] = w"
| "join_with sep (w # ws) = w @ sep @ join_with sep ws"

definition display_name :: "string \<Rightarrow> string" where
  \<comment> \<open>\<^verbatim>\<open>" ".join(word.capitalize() for word in category.split("_"))\<close>\<close>
  "display_name category = join_with '' '' (map capitalize (split_on (CHR ''_'') category))"

fun first_match :: "string \<Rightarrow> (string \<times> string list) list \<Rightarrow> string option" where
  \<comment> \<open>the two nested loops over the table: the first category one of whose keywords occurs\<close>
  "first_match description [] = None"
| "first_match description ((category, keywords) # rest) =
     (if \<exists>keyword \<in> set keywords. str_in keyword description then Some category
      else first_match description rest)"

definition categorize_item :: "string \<Rightarrow> string" where
  "categorize_item d =
     (let description = lower d in
      case first_match description category_mappings of
        Some category \<Rightarrow> display_name category
      | None \<Rightarrow>
          if str_in ''bag'' description \<and> str_in ''reusable'' description then ''Household''
          else ''Groceries'')"

section \<open>The receipt record\<close>

text \<open>
  The result of the assembler is a dictionary of dictionaries whose leaves are strings: an
  amount is stored as the \<^verbatim>\<open>str\<close> of a float, and the empty string stands for an absent
  one. The records follow \<^verbatim>\<open>_get_empty_result\<close>; the field names carry the name of their
  dictionary as a prefix.
\<close>

record merchant =
  m_name :: string
  m_address :: string
  m_phone :: string
  m_tax_id :: string
  m_gst_hst_number :: string

record 'f tax_details =
  td_total_tax :: string
  td_tax_rates :: "'f list"
  td_tax_amounts :: "'f list"
  td_tax_types :: "string list"
  td_has_hst :: bool

record 'f transaction =
  t_date :: string
  t_time :: string
  t_total :: string
  t_subtotal :: string
  t_tax :: string
  t_tax_details :: "'f tax_details"

record item =
  i_description :: string
  i_quantity :: string
  i_price :: string
  i_total :: string
  i_tax_status :: string
  i_tax_amount :: string
  i_final_price :: string
  i_discount :: string
  i_savings :: string

record payment =
  p_type :: string
  p_amount :: string
  p_card_number :: string
  p_change_due :: string

record 'f receipt =
  image_id :: "string option"
  extracted_text :: string
  receipt_type :: "string option"
  merchant :: merchant
  transaction :: "'f transaction"
  items :: "item list"
  totals :: "unit list"
  payment :: payment

definition get_empty_result :: "string option \<Rightarrow> 'f receipt" where
  "get_empty_result iid =
     \<lparr>image_id = (case iid of Some s \<Rightarrow> (if s \<noteq> [] then Some s else Some ''unknown'')
                              | None \<Rightarrow> Some ''unknown''),
      extracted_text = [],
      receipt_type = None,
      merchant = \<lparr>m_name = [], m_address = [], m_phone = [], m_tax_id = [], m_gst_hst_number = []\<rparr>,
      transaction =
        \<lparr>t_date = [], t_time = [], t_total = [], t_subtotal = [], t_tax = [],
         t_tax_details =
           \<lparr>td_total_tax = [], td_tax_rates = [], td_tax_amounts = [], td_tax_types = [],
            td_has_hst = False\<rparr>\<rparr>,
      items = [],
      totals = [],
      payment = \<lparr>p_type = [], p_amount = [], p_card_number = [], p_change_due = []\<rparr>\<rparr>"

section \<open>The two regular expressions\<close>

definition starts_with_ci :: "string \<Rightarrow> string \<Rightarrow> bool" where
  \<comment> \<open>the upper-case literal \<open>pat\<close> matches at the start of \<open>s\<close>, ignoring case\<close>
  "starts_with_ci pat s = (length pat \<le> length s \<and> upper (take (length pat) s) = pat)"

definition digits_at :: "nat \<Rightarrow> string \<Rightarrow> bool" where
  \<comment> \<open>\<^verbatim>\<open>\d{n}\<close> matches at the start of \<open>s\<close>\<close>
  "digits_at n s = (n \<le> length s \<and> list_all is_ascii_digit (take n s))"

definition hst_match_at :: "string \<Rightarrow> nat option" where
  \<comment> \<open>the length of the match of \<^verbatim>\<open>(?:HST|GST)\s*#?\s*(\d{9})\s*(?:RT\d{4})?\<close> at the
      start of \<open>s\<close>. The classes of adjacent parts are disjoint, so the greedy match is the
      only one.\<close>
  "hst_match_at s =
     (if starts_with_ci ''HST'' s \<or> starts_with_ci ''GST'' s then
        (let r1 = drop 3 s;
             r2 = dropWhile is_space r1;
             r3 = (if prefix ''#'' r2 then tl r2 else r2);
             r4 = dropWhile is_space r3
         in if digits_at 9 r4 then
              (let r5 = drop 9 r4;
                   r6 = dropWhile is_space r5;
                   r7 = (if starts_with_ci ''RT'' r6 \<and> digits_at 4 (drop 2 r6) then drop 6 r6 else r6)
               in Some (length s - length r7))
            else None)
      else None)"

fun hst_search :: "string \<Rightarrow> string option" where
  \<comment> \<open>\<^verbatim>\<open>re.search\<close>: the leftmost match, as \<^verbatim>\<open>match.group(0)\<close>\<close>
  "hst_search [] = None"
| "hst_search (c # cs) =
     (case hst_match_at (c # cs) of Some n \<Rightarrow> Some (take n (c # cs)) | None \<Rightarrow> hst_search cs)"

definition savings_match_at :: "string \<Rightarrow> string option" where
  \<comment> \<open>group 1 of \<^verbatim>\<open>YOU SAVED \$?([\d.]+)\<close> matched at the start of \<open>s\<close>\<close>
  "savings_match_at s =
     (if starts_with_ci ''YOU SAVED '' s then
        (let r1 = drop 10 s;
             r2 = (if prefix ''$'' r1 then tl r1 else r1);
             g = takeWhile (\<lambda>c. is_ascii_digit c \<or> c = CHR ''.'') r2
         in if g \<noteq> [] then Some g else None)
      else None)"

fun savings_search :: "string \<Rightarrow> string option" where
  "savings_search [] = None"
| "savings_search (c # cs) =
     (case savings_match_at (c # cs) of Some g \<Rightarrow> Some g | None \<Rightarrow> savings_search cs)"

section \<open>The receipt assembler\<close>

text \<open>
  \<^verbatim>\<open>_process_receipt_result\<close> keeps its working values in local variables and mutates the
  result dictionary in place. The model passes them along as one record. A block of statements
  that can raise returns the exception, if any, together with the state at that moment: what
  was assigned before the \<^verbatim>\<open>raise\<close> stays assigned.
\<close>

record 'f locals =
  result :: "'f receipt"
  total_tax :: "'f option"
  tax_rates :: "'f option list"
  tax_amounts :: "'f list"
  tax_types :: "string list"
  subtotal :: "'f option"
  total :: "'f option"
  has_hst :: bool
  hst_number_found :: bool

definition upd_merchant :: "(merchant \<Rightarrow> merchant) \<Rightarrow> 'f locals \<Rightarrow> 'f locals" where
  "upd_merchant g st = st\<lparr>result := (result st)\<lparr>merchant := g (merchant (result st))\<rparr>\<rparr>"

definition upd_transaction :: "('f transaction \<Rightarrow> 'f transaction) \<Rightarrow> 'f locals \<Rightarrow> 'f locals" where
  "upd_transaction g st = st\<lparr>result := (result st)\<lparr>transaction := g (transaction (result st))\<rparr>\<rparr>"

definition upd_payment :: "(payment \<Rightarrow> payment) \<Rightarrow> 'f locals \<Rightarrow> 'f locals" where
  "upd_payment g st = st\<lparr>result := (result st)\<lparr>payment := g (payment (result st))\<rparr>\<rparr>"

definition upd_items :: "(item list \<Rightarrow> item list) \<Rightarrow> 'f locals \<Rightarrow> 'f locals" where
  "upd_items g st = st\<lparr>result := (result st)\<lparr>items := g (items (result st))\<rparr>\<rparr>"

fun for_each :: "('a \<Rightarrow> 's \<Rightarrow> exn option \<times> 's) \<Rightarrow> 'a list \<Rightarrow> 's \<Rightarrow> exn option \<times> 's" where
  \<comment> \<open>a \<^verbatim>\<open>for\<close> loop whose body may raise: the first exception ends it\<close>
  "for_each body [] s = (None, s)"
| "for_each body (x # xs) s =
     (case body x s of (None, s') \<Rightarrow> for_each body xs s' | (Some e, s') \<Rightarrow> (Some e, s'))"

definition bind_exn :: "exn + 'a \<Rightarrow> ('a \<Rightarrow> exn + 'b) \<Rightarrow> exn + 'b" where
  "bind_exn m k = (case m of Inl e \<Rightarrow> Inl e | Inr x \<Rightarrow> k x)"

definition currency_of_key ::
  "'f float_ops \<Rightarrow> (string \<times> 'f field) list \<Rightarrow> string \<Rightarrow> exn + 'f option" where
  \<comment> \<open>\<^verbatim>\<open>if key in obj: x = self._clean_currency(self._extract_field_value(obj[key]))\<close>\<close>
  "currency_of_key ops obj key =
     (case map_of obj key of
        Some f \<Rightarrow> clean_currency ops (extract_field_value (Some f))
      | None \<Rightarrow> Inr None)"

definition amount_str :: "'f float_ops \<Rightarrow> 'f option \<Rightarrow> string \<Rightarrow> string" where
  \<comment> \<open>\<^verbatim>\<open>if x is not None: d[k] = str(x)\<close>, from the old value of \<^verbatim>\<open>d[k]\<close>\<close>
  "amount_str ops x old = (case x of Some a \<Rightarrow> fl_str ops a | None \<Rightarrow> old)"

subsection \<open>The tax breakdown\<close>

definition parse_rate :: "'f float_ops \<Rightarrow> 'f pyval \<Rightarrow> 'f option" where
  \<comment> \<open>the conversion of \<^verbatim>\<open>rate_val\<close>; its bare \<^verbatim>\<open>except\<close> turns every failure into
      \<^verbatim>\<open>None\<close>\<close>
  "parse_rate ops rate_val =
     (if truthy ops rate_val then
        (case rate_val of
           PStr s \<Rightarrow>
             (if CHR ''%'' \<in> set s then
                (case fl_of_str ops (filter (\<lambda>c. c \<noteq> CHR ''%'') s) of
                   None \<Rightarrow> None
                 | Some x \<Rightarrow> fl_div ops x (fl_hundred ops))
              else None)
         | PInt n \<Rightarrow>
             (case fl_of_int ops n of
                None \<Rightarrow> None
              | Some x \<Rightarrow> if 1 < n then fl_div ops x (fl_hundred ops) else Some x)
         | PFloat x \<Rightarrow> if fl_gt_int ops x 1 then fl_div ops x (fl_hundred ops) else Some x
         | PNone \<Rightarrow> None)
      else None)"

definition regional_label :: "string \<Rightarrow> bool" where
  \<comment> \<open>\<^verbatim>\<open>any(t in tax_type.upper() for t in ['HST', 'GST', 'PST'])\<close>\<close>
  "regional_label tax_type = (\<exists>t \<in> set [''HST'', ''GST'', ''PST'']. str_in t (upper tax_type))"

definition tax_item_step ::
  "'f float_ops \<Rightarrow> 'f field \<Rightarrow> 'f locals \<times> 'f \<Rightarrow> exn option \<times> ('f locals \<times> 'f)" where
  \<comment> \<open>one round of the loop over \<^verbatim>\<open>TaxDetails\<close>; the second component is
      \<^verbatim>\<open>current_total_tax\<close>\<close>
  "tax_item_step ops tax_item s =
     (let st = fst s; current_total_tax = snd s in
      if hasattr (value_object tax_item) then
        (case value_object tax_item of
           Attr (Some tax_obj) \<Rightarrow>
             (let tax_type = (case map_of tax_obj ''Description'' of
                                Some f \<Rightarrow> str_or_empty ops (extract_field_value (Some f))
                              | None \<Rightarrow> []);
                  rate = (case map_of tax_obj ''Rate'' of
                            Some f \<Rightarrow> parse_rate ops (extract_field_value (Some f))
                          | None \<Rightarrow> None)
              in case currency_of_key ops tax_obj ''Amount'' of
                   Inl e \<Rightarrow> (Some e, s)
                 | Inr None \<Rightarrow> (None, s)
                 | Inr (Some amount) \<Rightarrow>
                     (None,
                      (st\<lparr>tax_amounts := tax_amounts st @ [amount],
                          tax_types := tax_types st @ [tax_type],
                          tax_rates := tax_rates st @ [rate],
                          has_hst := (if regional_label tax_type then True else has_hst st)\<rparr>,
                       fl_add ops current_total_tax amount)))
         | _ \<Rightarrow> (Some TypeError, s))
      else (None, s))"

subsection \<open>The payment details\<close>

definition payment_step :: "'f float_ops \<Rightarrow> 'f field \<Rightarrow> 'f locals \<Rightarrow> exn option \<times> 'f locals" where
  \<comment> \<open>one round of the loop over \<^verbatim>\<open>PaymentDetails\<close>. Each of the three tests is
      \<^verbatim>\<open>not result["payment"][k] and key in payment_obj\<close>: on a \<^verbatim>\<open>None\<close> object the
      first test whose left side holds raises, and nothing was assigned before it.\<close>
  "payment_step ops payment_item st =
     (if hasattr (value_object payment_item) then
        (case value_object payment_item of
           Attr (Some payment_obj) \<Rightarrow>
             (let st1 = (if p_type (payment (result st)) = [] then
                           (case map_of payment_obj ''PaymentType'' of
                              Some f \<Rightarrow> upd_payment (\<lambda>p. p\<lparr>p_type :=
                                          str_or_empty ops (extract_field_value (Some f))\<rparr>) st
                            | None \<Rightarrow> st)
                         else st)
              in case (if p_amount (payment (result st1)) = []
                       then currency_of_key ops payment_obj ''Amount'' else Inr None) of
                   Inl e \<Rightarrow> (Some e, st1)
                 | Inr pay_amount \<Rightarrow>
                     (let st2 = upd_payment (\<lambda>p. p\<lparr>p_amount := amount_str ops pay_amount (p_amount p)\<rparr>) st1
                      in (None,
                          (if p_card_number (payment (result st2)) = [] then
                             (case map_of payment_obj ''CreditCardLast4Digits'' of
                                Some f \<Rightarrow> upd_payment (\<lambda>p. p\<lparr>p_card_number :=
                                            ''****'' @ str_or_empty ops (extract_field_value (Some f))\<rparr>) st2
                              | None \<Rightarrow> st2)
                           else st2))))
         | _ \<Rightarrow>
             (if p_type (payment (result st)) = [] \<or> p_amount (payment (result st)) = []
                 \<or> p_card_number (payment (result st)) = []
              then (Some TypeError, st) else (None, st)))
      else (None, st))"

subsection \<open>The item builder\<close>

definition default_item :: item where
  "default_item =
     \<lparr>i_description = [], i_quantity = ''1'', i_price = [], i_total = [],
      i_tax_status = ''UNKNOWN'', i_tax_amount = [], i_final_price = [],
      i_discount = [], i_savings = []\<rparr>"

definition infer_price_total :: "'f float_ops \<Rightarrow> item \<Rightarrow> item" where
  \<comment> \<open>the two \<^verbatim>\<open>try\<close> blocks under "Infer Price/Total if one is missing"; their bare
      \<^verbatim>\<open>except: pass\<close> leaves the item as it is\<close>
  "infer_price_total ops it =
     (if i_total it \<noteq> [] \<and> i_price it = [] \<and> i_quantity it \<noteq> [] then
        (case fl_of_str ops (i_quantity it) of
           None \<Rightarrow> it
         | Some qty_f \<Rightarrow>
             (case fl_of_str ops (i_total it) of
                None \<Rightarrow> it
              | Some total_f \<Rightarrow>
                  if fl_gt_int ops qty_f 0 then
                    (case fl_div ops total_f qty_f of
                       None \<Rightarrow> it
                     | Some q \<Rightarrow> it\<lparr>i_price := fl_str ops (fl_round2 ops q)\<rparr>)
                  else it))
      else if i_price it \<noteq> [] \<and> i_total it = [] \<and> i_quantity it \<noteq> [] then
        (case fl_of_str ops (i_quantity it) of
           None \<Rightarrow> it
         | Some qty_f \<Rightarrow>
             (case fl_of_str ops (i_price it) of
                None \<Rightarrow> it
              | Some price_f \<Rightarrow> it\<lparr>i_total := fl_str ops (fl_round2 ops (fl_mul ops price_f qty_f))\<rparr>))
      else it)"

definition item_tax_status :: "bool \<Rightarrow> string \<Rightarrow> string" where
  "item_tax_status hst description =
     (let default_status = (if hst then ''TAXABLE'' else ''UNKNOWN'');
          item_desc_upper = upper description
      in if str_in ''ZERO'' item_desc_upper \<or> str_in ''0%'' item_desc_upper then ''ZERO-RATED''
         else if str_in ''EXEMPT'' item_desc_upper then ''EXEMPT''
         else default_status)"

definition primary_rate :: "'f float_ops \<Rightarrow> 'f option list \<Rightarrow> 'f option" where
  \<comment> \<open>\<^verbatim>\<open>tax_rates[0] if tax_rates else 0.13\<close>; the list holds \<^verbatim>\<open>None\<close> for a tax
      line whose rate was not read\<close>
  "primary_rate ops rates = (case rates of [] \<Rightarrow> Some (fl_default_rate ops) | r # _ \<Rightarrow> r)"

definition item_tax_amount :: "'f float_ops \<Rightarrow> bool \<Rightarrow> 'f option list \<Rightarrow> item \<Rightarrow> item" where
  \<comment> \<open>"Calculate Item Tax Amount". Multiplying by a \<^verbatim>\<open>None\<close> rate raises
      \<^verbatim>\<open>TypeError\<close>, which the bare \<^verbatim>\<open>except\<close> answers with the fallback.\<close>
  "item_tax_amount ops hst rates it =
     (if i_tax_status it = ''TAXABLE'' \<and> hst \<and> i_total it \<noteq> [] then
        (case fl_of_str ops (i_total it) of
           None \<Rightarrow> it\<lparr>i_tax_amount := [], i_final_price := i_total it\<rparr>
         | Some line_total_f \<Rightarrow>
             (case primary_rate ops rates of
                None \<Rightarrow> it\<lparr>i_tax_amount := [], i_final_price := i_total it\<rparr>
              | Some r \<Rightarrow>
                  (let amt = fl_round2 ops (fl_mul ops line_total_f r) in
                   it\<lparr>i_tax_amount := fl_str ops amt,
                      i_final_price := fl_str ops (fl_round2 ops (fl_add ops line_total_f amt))\<rparr>)))
      else if i_total it \<noteq> [] then it\<lparr>i_final_price := i_total it\<rparr>
      else it)"

definition item_savings :: "'f float_ops \<Rightarrow> item \<Rightarrow> exn + item" where
  "item_savings ops it =
     (case savings_search (i_description it) of
        None \<Rightarrow> Inr it
      | Some g \<Rightarrow>
          bind_exn (clean_currency ops (PStr g))
            (\<lambda>savings. Inr (it\<lparr>i_savings := amount_str ops savings (i_savings it)\<rparr>)))"

definition read_item :: "'f float_ops \<Rightarrow> (string \<times> 'f field) list \<Rightarrow> exn + item" where
  \<comment> \<open>"Extract standard item fields": description, quantity, unit price and line total\<close>
  "read_item ops item_obj =
     (let d = (case map_of item_obj ''Description'' of
                 Some f \<Rightarrow> str_or_empty ops (extract_field_value (Some f))
               | None \<Rightarrow> i_description default_item)
      in bind_exn
           (case map_of item_obj ''Quantity'' of
              Some f \<Rightarrow> clean_quantity ops (extract_field_value (Some f))
            | None \<Rightarrow> Inr (i_quantity default_item))
           (\<lambda>q. bind_exn (currency_of_key ops item_obj ''Price'')
           (\<lambda>price. bind_exn (currency_of_key ops item_obj ''TotalPrice'')
           (\<lambda>total_price.
              Inr (default_item\<lparr>i_description := d, i_quantity := q,
                     i_price := amount_str ops price [],
                     i_total := amount_str ops total_price []\<rparr>)))))"

definition derive_item :: "'f float_ops \<Rightarrow> bool \<Rightarrow> 'f option list \<Rightarrow> item \<Rightarrow> item" where
  \<comment> \<open>the three blocks "Infer Price/Total if one is missing", "Handle Tax Status" and
      "Calculate Item Tax Amount", none of which raises\<close>
  "derive_item ops hst rates it1 =
     (let it2 = infer_price_total ops it1;
          it3 = it2\<lparr>i_tax_status := item_tax_status hst (i_description it2)\<rparr>
      in item_tax_amount ops hst rates it3)"

definition discount_savings :: "'f float_ops \<Rightarrow> (string \<times> 'f field) list \<Rightarrow> item \<Rightarrow> exn + item" where
  \<comment> \<open>"Extract Discount/Savings"\<close>
  "discount_savings ops item_obj it4 =
     bind_exn (currency_of_key ops item_obj ''Discount'')
       (\<lambda>discount. item_savings ops (it4\<lparr>i_discount := amount_str ops discount (i_discount it4)\<rparr>))"

definition build_item ::
  "'f float_ops \<Rightarrow> bool \<Rightarrow> 'f option list \<Rightarrow> 'f field \<Rightarrow> exn + item" where
  \<comment> \<open>the body of the loop over \<^verbatim>\<open>Items\<close>, up to the test on the description; a
      \<^verbatim>\<open>None\<close> object raises at the first membership test\<close>
  "build_item ops hst rates item_field =
     (if hasattr (value_object item_field) then
        (case value_object item_field of
           Attr (Some item_obj) \<Rightarrow>
             bind_exn (read_item ops item_obj)
               (\<lambda>it1. discount_savings ops item_obj (derive_item ops hst rates it1))
         | _ \<Rightarrow> Inl TypeError)
      else Inr default_item)"

definition item_step :: "'f float_ops \<Rightarrow> 'f field \<Rightarrow> 'f locals \<Rightarrow> exn option \<times> 'f locals" where
  \<comment> \<open>only an item with a description is appended\<close>
  "item_step ops item_field st =
     (case build_item ops (has_hst st) (tax_rates st) item_field of
        Inl e \<Rightarrow> (Some e, st)
      | Inr item_dict \<Rightarrow>
          (None, if i_description item_dict \<noteq> [] then upd_items (\<lambda>xs. xs @ [item_dict]) st else st))"

subsection \<open>One field of the document\<close>

definition currency_field ::
  "'f float_ops \<Rightarrow> 'f pyval \<Rightarrow> ('f \<Rightarrow> 'f locals \<Rightarrow> 'f locals) \<Rightarrow> 'f locals \<Rightarrow> exn option \<times> 'f locals" where
  \<comment> \<open>\<^verbatim>\<open>x = self._clean_currency(value)\<close>, then \<^verbatim>\<open>if x is not None: ...\<close>\<close>
  "currency_field ops v assign st =
     (case clean_currency ops v of
        Inl e \<Rightarrow> (Some e, st)
      | Inr None \<Rightarrow> (None, st)
      | Inr (Some x) \<Rightarrow> (None, assign x st))"

definition tax_details_field :: "'f float_ops \<Rightarrow> 'f field list \<Rightarrow> 'f locals \<Rightarrow> exn option \<times> 'f locals" where
  \<comment> \<open>the three lists are reset, the loop runs, and only a loop that ends without an
      exception reaches \<^verbatim>\<open>total_tax = current_total_tax\<close>\<close>
  "tax_details_field ops arr st =
     (case for_each (tax_item_step ops) arr
             (st\<lparr>tax_amounts := [], tax_types := [], tax_rates := []\<rparr>, fl_zero ops) of
        (Some e, s') \<Rightarrow> (Some e, fst s')
      | (None, s') \<Rightarrow> (None, (fst s')\<lparr>total_tax := Some (snd s')\<rparr>))"

definition process_field ::
  "'f float_ops \<Rightarrow> string \<times> 'f field \<Rightarrow> 'f locals \<Rightarrow> exn option \<times> 'f locals" where
  \<comment> \<open>the body of the \<^verbatim>\<open>try\<close> inside the loop over \<^verbatim>\<open>doc.fields.items()\<close>\<close>
  "process_field ops nf st =
     (let field_name = fst nf; field = snd nf;
          v = extract_field_value (Some field)
      in
      if field_name = ''MerchantName'' then
        (None, upd_merchant (\<lambda>m. m\<lparr>m_name := str_or_empty ops v\<rparr>) st)
      else if field_name = ''MerchantAddress'' then
        (None, upd_merchant (\<lambda>m. m\<lparr>m_address := str_or_empty ops v\<rparr>) st)
      else if field_name = ''MerchantPhoneNumber'' then
        (None, upd_merchant (\<lambda>m. m\<lparr>m_phone := str_or_empty ops v\<rparr>) st)
      else if field_name = ''TransactionDate'' then
        (None, upd_transaction (\<lambda>t. t\<lparr>t_date := str_or_empty ops v\<rparr>) st)
      else if field_name = ''TransactionTime'' then
        (None, upd_transaction (\<lambda>t. t\<lparr>t_time := str_or_empty ops v\<rparr>) st)
      else if field_name = ''Total'' then
        currency_field ops v
          (\<lambda>x s. upd_transaction (\<lambda>t. t\<lparr>t_total := fl_str ops x\<rparr>) (s\<lparr>total := Some x\<rparr>)) st
      else if field_name = ''Subtotal'' then
        currency_field ops v
          (\<lambda>x s. upd_transaction (\<lambda>t. t\<lparr>t_subtotal := fl_str ops x\<rparr>) (s\<lparr>subtotal := Some x\<rparr>)) st
      else if field_name = ''TotalTax'' then
        currency_field ops v
          (\<lambda>x s. if hst_number_found s \<and> tax_amounts s = []
                  then s\<lparr>total_tax := Some x, tax_amounts := tax_amounts s @ [x],
                         tax_types := tax_types s @ [''HST/GST'']\<rparr>
                  else s\<lparr>total_tax := Some x\<rparr>) st
      else if field_name = ''TaxDetails'' \<and> hasattr (value_array field)
              \<and> (case value_array field of Attr (Some (x # xs)) \<Rightarrow> True | _ \<Rightarrow> False) then
        (case value_array field of
           Attr (Some arr) \<Rightarrow> tax_details_field ops arr st
         | _ \<Rightarrow> (None, st))
      else if field_name = ''PaymentDetails'' \<and> hasattr (value_array field) then
        (case value_array field of
           Attr (Some arr) \<Rightarrow> for_each (payment_step ops) arr st
         | _ \<Rightarrow> (Some TypeError, st))
      else if field_name = ''AmountTendered'' then
        (if p_amount (payment (result st)) = [] then
           currency_field ops v (\<lambda>x. upd_payment (\<lambda>p. p\<lparr>p_amount := fl_str ops x\<rparr>)) st
         else (None, st))
      else if field_name = ''ChangeDue'' then
        currency_field ops v (\<lambda>x. upd_payment (\<lambda>p. p\<lparr>p_change_due := fl_str ops x\<rparr>)) st
      else if field_name = ''PaymentType'' then
        (None,
         if p_type (payment (result st)) = []
         then upd_payment (\<lambda>p. p\<lparr>p_type := str_or_empty ops v\<rparr>) st else st)
      else if field_name = ''Items'' \<and> hasattr (value_array field) then
        (case value_array field of
           Attr (Some arr) \<Rightarrow> for_each (item_step ops) arr (upd_items (\<lambda>xs. []) st)
         | _ \<Rightarrow> (Some TypeError, upd_items (\<lambda>xs. []) st))
      else (None, st))"

fun process_fields :: "'f float_ops \<Rightarrow> (string \<times> 'f field) list \<Rightarrow> 'f locals \<Rightarrow> 'f locals" where
  \<comment> \<open>the loop over the fields, in the order of the mapping; its handler
      \<^verbatim>\<open>except Exception as e: ... continue\<close> goes on with the next field from the state the
      failed field left\<close>
  "process_fields ops [] st = st"
| "process_fields ops (nf # rest) st =
     (case process_field ops nf st of
        (None, st') \<Rightarrow> process_fields ops rest st'
      | (Some e, st') \<Rightarrow> process_fields ops rest st')"

subsection \<open>The whole result\<close>

record 'f document =
  doc_type :: "string option"
  doc_fields :: "(string \<times> 'f field) list option attr"

record 'f analyze_result =
  ar_content :: "string option"
  documents :: "'f document list option"

definition init_locals :: "'f receipt \<Rightarrow> 'f locals" where
  "init_locals r =
     \<lparr>result = r, total_tax = None, tax_rates = [], tax_amounts = [], tax_types = [],
      subtotal = None, total = None, has_hst = False, hst_number_found = False\<rparr>"

definition preprocess_tax_id :: "'f float_ops \<Rightarrow> (string \<times> 'f field) list \<Rightarrow> 'f locals \<Rightarrow> 'f locals" where
  \<comment> \<open>"Pre-process to find HST number early"\<close>
  "preprocess_tax_id ops fs st =
     (case map_of fs ''MerchantTaxId'' of
        None \<Rightarrow> st
      | Some tax_id_field \<Rightarrow>
          (let tax_id_value = extract_field_value (Some tax_id_field) in
           if truthy ops tax_id_value then
             (let tax_id_str = py_str ops tax_id_value in
              case hst_search tax_id_str of
                Some m \<Rightarrow>
                  (upd_merchant (\<lambda>x. x\<lparr>m_gst_hst_number := m\<rparr>) st)
                    \<lparr>has_hst := True, hst_number_found := True\<rparr>
              | None \<Rightarrow> upd_merchant (\<lambda>x. x\<lparr>m_tax_id := tax_id_str\<rparr>) st)
           else st))"

definition final_tax_details :: "'f float_ops \<Rightarrow> 'f locals \<Rightarrow> 'f receipt" where
  \<comment> \<open>"Final Tax Details Population"\<close>
  "final_tax_details ops st =
     (let tax_text = (case total_tax st of Some x \<Rightarrow> fl_str ops x | None \<Rightarrow> []) in
      result (upd_transaction
        (\<lambda>t. t\<lparr>t_tax := tax_text,
               t_tax_details :=
                 \<lparr>td_total_tax = tax_text,
                  td_tax_rates = List.map_filter (\<lambda>r. r) (tax_rates st),
                  td_tax_amounts = tax_amounts st,
                  td_tax_types = filter (\<lambda>t. t \<noteq> []) (tax_types st),
                  td_has_hst = has_hst st\<rparr>\<rparr>) st))"

definition process_body ::
  "'f float_ops \<Rightarrow> 'f analyze_result option \<Rightarrow> string option \<Rightarrow> exn + 'f receipt" where
  \<comment> \<open>the body of the outer \<^verbatim>\<open>try\<close>. A document whose \<^verbatim>\<open>fields\<close> attribute is
      \<^verbatim>\<open>None\<close> raises \<^verbatim>\<open>AttributeError\<close> in the debug line that prints
      \<^verbatim>\<open>doc.fields.keys()\<close>.\<close>
  "process_body ops receipts iid =
     (let result0 = get_empty_result iid in
      case receipts of
        None \<Rightarrow> Inr result0
      | Some r \<Rightarrow>
          (case documents r of
             None \<Rightarrow> Inr result0
           | Some [] \<Rightarrow> Inr result0
           | Some (doc # _) \<Rightarrow>
               (let result1 = result0\<lparr>image_id := iid,
                      extracted_text := (case ar_content r of Some c \<Rightarrow> c | None \<Rightarrow> []),
                      receipt_type := (case doc_type doc of
                                         Some t \<Rightarrow> (if t \<noteq> [] then Some t else None)
                                       | None \<Rightarrow> None)\<rparr>
                in case doc_fields doc of
                     Attr None \<Rightarrow> Inl AttributeError
                   | NoAttr \<Rightarrow> Inr result1
                   | Attr (Some fs) \<Rightarrow>
                       if fs = [] then Inr result1
                       else Inr (final_tax_details ops
                                   (process_fields ops fs
                                      (preprocess_tax_id ops fs (init_locals result1)))))))"

definition process_receipt_result ::
  "'f float_ops \<Rightarrow> 'f analyze_result option \<Rightarrow> string option \<Rightarrow> 'f receipt" where
  \<comment> \<open>the outer handler returns the empty structure\<close>
  "process_receipt_result ops receipts iid =
     (case process_body ops receipts iid of
        Inl e \<Rightarrow> get_empty_result iid
      | Inr r \<Rightarrow> r)"

section \<open>Exact decimal arithmetic as float primitives\<close>

text \<open>
  To run the model on a concrete receipt the float primitives are instantiated with exact
  arithmetic on rationals: \<open>dec_of_str\<close> reads a plain decimal literal (an optional minus
  sign, digits, an optional point), \<open>dec_str\<close> prints the decimal expansion with at least one
  digit after the point, \<open>dec_round2\<close> rounds half to even at two decimals. On the inputs
  evaluated in this theory every value is a short decimal, for which the interpreter prints and
  reads the same texts.
\<close>

definition digit_val :: "char \<Rightarrow> int" where
  "digit_val c = code_point c - 48"

definition digits_val :: "string \<Rightarrow> int" where
  "digits_val s = foldl (\<lambda>a c. 10 * a + digit_val c) 0 s"

definition dec_of_str :: "string \<Rightarrow> rat option" where
  "dec_of_str s =
     (let neg = prefix ''-'' s;
          body = (if neg then tl s else s);
          ip = takeWhile is_ascii_digit body;
          rest = dropWhile is_ascii_digit body;
          fp = (if prefix ''.'' rest then tl rest else [])
      in if (rest = [] \<or> prefix ''.'' rest) \<and> list_all is_ascii_digit fp \<and> (ip \<noteq> [] \<or> fp \<noteq> [])
         then Some ((if neg then - 1 else 1) * (of_int (digits_val (ip @ fp)) / 10 ^ length fp))
         else None)"

fun frac_digits :: "nat \<Rightarrow> rat \<Rightarrow> string" where
  "frac_digits 0 r = []"
| "frac_digits (Suc k) r =
     (if r = 0 then []
      else (let d = \<lfloor>r * 10\<rfloor> in digit_char d # frac_digits k (r * 10 - of_int d)))"

definition dec_str :: "rat \<Rightarrow> string" where
  "dec_str q =
     (let a = \<bar>q\<bar>; n = \<lfloor>a\<rfloor>; fr = frac_digits 17 (a - of_int n)
      in (if q < 0 then ''-'' else []) @ digits_of n @ ''.'' @ (if fr = [] then ''0'' else fr))"

definition dec_round2 :: "rat \<Rightarrow> rat" where
  "dec_round2 q =
     (let y = q * 100; f = \<lfloor>y\<rfloor>; d = y - of_int f
      in of_int (if d < 1 / 2 then f else if 1 / 2 < d then f + 1
                 else if even f then f else f + 1) / 100)"

definition dec_to_int :: "rat \<Rightarrow> exn + int" where
  "dec_to_int q = Inr (if 0 \<le> q then \<lfloor>q\<rfloor> else - \<lfloor>- q\<rfloor>)"

definition dec_ops :: "rat float_ops" where
  "dec_ops =
     \<lparr>fl_of_str = dec_of_str,
      fl_of_int = (\<lambda>n. Some (of_int n)),
      fl_to_int = dec_to_int,
      fl_str = dec_str,
      fl_add = (\<lambda>x y. x + y),
      fl_mul = (\<lambda>x y. x * y),
      fl_div = (\<lambda>x y. if y = 0 then None else Some (x / y)),
      fl_round2 = dec_round2,
      fl_eq_int = (\<lambda>x n. x = of_int n),
      fl_gt_int = (\<lambda>x n. of_int n < x),
      fl_zero = 0,
      fl_one = 1,
      fl_hundred = 100,
      fl_default_rate = 13 / 100\<rparr>"

section \<open>Fields as the service delivers them\<close>

text \<open>
  The objects of the service's client library carry every attribute, most of them \<^verbatim>\<open>None\<close>.
  These constructors build the fields used in the examples below.
\<close>

definition text_field :: "string \<Rightarrow> 'f field" where
  \<comment> \<open>a field of kind \<^verbatim>\<open>string\<close> whose display text is \<open>c\<close>\<close>
  "text_field c =
     Field (Some ''string'') None (Attr (Some c)) (Attr None) (Attr None) (Attr None) (Attr None)
       (Attr None) (Attr None) (Attr None) (Attr ()) (Attr None) (Attr None)"

definition array_field :: "'f field list option \<Rightarrow> 'f field" where
  \<comment> \<open>a field of kind \<^verbatim>\<open>array\<close> without display text\<close>
  "array_field xs =
     Field (Some ''array'') None (Attr None) (Attr None) (Attr None) (Attr None) (Attr None)
       (Attr None) (Attr None) (Attr None) (Attr ()) (Attr xs) (Attr None)"

definition object_field :: "(string \<times> 'f field) list \<Rightarrow> 'f field" where
  \<comment> \<open>a field of kind \<^verbatim>\<open>object\<close> without display text\<close>
  "object_field kvs =
     Field (Some ''object'') None (Attr None) (Attr None) (Attr None) (Attr None) (Attr None)
       (Attr None) (Attr None) (Attr None) (Attr ()) (Attr None) (Attr (Some kvs))"

definition one_document :: "string option \<Rightarrow> string option \<Rightarrow> (string \<times> 'f field) list \<Rightarrow> 'f analyze_result option" where
  \<comment> \<open>a result with overall text, one document, its type and its field mapping\<close>
  "one_document text dtype fs =
     Some \<lparr>ar_content = text, documents = Some [\<lparr>doc_type = dtype, doc_fields = Attr (Some fs)\<rparr>]\<rparr>"

section \<open>Notions of the specification\<close>







definition empty_receipt :: "'f receipt \<Rightarrow> bool" where
  \<comment> \<open>Follows the specification's words for the all-default receipt, the identifier apart:
      every string field empty, every optional decimal absent, no items.\<close>
  "empty_receipt r =
     (extracted_text r = [] \<and> receipt_type r = None
      \<and> merchant r = \<lparr>m_name = [], m_address = [], m_phone = [], m_tax_id = [], m_gst_hst_number = []\<rparr>
      \<and> t_date (transaction r) = [] \<and> t_time (transaction r) = []
      \<and> t_total (transaction r) = [] \<and> t_subtotal (transaction r) = []
      \<and> t_tax (transaction r) = []
      \<and> t_tax_details (transaction r) =
          \<lparr>td_total_tax = [], td_tax_rates = [], td_tax_amounts = [], td_tax_types = [],
           td_has_hst = False\<rparr>
      \<and> items r = [] \<and> totals r = []
      \<and> payment r = \<lparr>p_type = [], p_amount = [], p_card_number = [], p_change_due = []\<rparr>)"

definition id_or_unknown :: "string option \<Rightarrow> string option" where
  \<comment> \<open>\<^verbatim>\<open>image_id or "unknown"\<close>\<close>
  "id_or_unknown iid = (case iid of Some s \<Rightarrow> (if s \<noteq> [] then Some s else Some ''unknown'')
                              | None \<Rightarrow> Some ''unknown'')"

definition text_or_empty :: "string option \<Rightarrow> string" where
  \<comment> \<open>\<^verbatim>\<open>receipts.content if receipts.content else ''\<close>\<close>
  "text_or_empty c = (case c of Some s \<Rightarrow> s | None \<Rightarrow> [])"

definition type_or_none :: "string option \<Rightarrow> string option" where
  \<comment> \<open>\<^verbatim>\<open>doc.doc_type if doc.doc_type else None\<close>\<close>
  "type_or_none t = (case t of Some s \<Rightarrow> (if s \<noteq> [] then Some s else None) | None \<Rightarrow> None)"

definition zero_marker :: "string \<Rightarrow> bool" where
  \<comment> \<open>the description holds a zero-rate marker, "zero" or "0%", in any case\<close>
  "zero_marker d = (str_in ''ZERO'' (upper d) \<or> str_in ''0%'' (upper d))"

definition exempt_marker :: "string \<Rightarrow> bool" where
  \<comment> \<open>the description holds "exempt", in any case\<close>
  "exempt_marker d = str_in ''EXEMPT'' (upper d)"


definition built_item :: "item \<Rightarrow> bool" where
  \<comment> \<open>the invariant of the item list: a description, and the status the keyword rule gives
      it under one of the two values of the flag\<close>
  "built_item it = (i_description it \<noteq> []
     \<and> (i_tax_status it = item_tax_status True (i_description it)
        \<or> i_tax_status it = item_tax_status False (i_description it)))"

section \<open>The field extractor: display text before typed value\<close>

lemma extract_content:
  "content field = Attr (Some c) \<Longrightarrow> extract_field_value (Some field) = PStr c"
  by (simp add: extract_field_value_def hasattr_def str_val_def)

text \<open>
  Claim C2. The extractor is said to return the display text only when it is present and not
  empty, and to fall back to the typed accessor of the field's kind otherwise. The source tests
  \<^verbatim>\<open>field.content is not None\<close> under the comment "Prioritize content if available and
  non-empty": a field of kind \<^verbatim>\<open>string\<close> whose display text is the empty string and
  whose \<^verbatim>\<open>value_string\<close> is \<^verbatim>\<open>abc\<close> yields the empty string, not \<^verbatim>\<open>abc\<close>.
\<close>

theorem extract_field_value_empty_content:
  "extract_field_value
     (Some (Field (Some ''string'') None (Attr (Some [])) (Attr (Some ''abc'')) (Attr None)
        (Attr None) (Attr None) (Attr None) (Attr None) (Attr None) (Attr ()) (Attr None)
        (Attr None))) = PStr []"
  by (simp add: extract_field_value_def hasattr_def str_val_def)

section \<open>The categorizer: the table runs before the reusable-bag rule\<close>

lemma first_match_None_iff:
  "first_match d table = None \<longleftrightarrow> (\<forall>(cat, kws) \<in> set table. \<forall>k \<in> set kws. \<not> str_in k d)"
  by (induction table) (auto split: if_splits)

lemma reusable_bag_rule_unreachable:
  "str_in ''bag'' (lower d) \<Longrightarrow> first_match (lower d) category_mappings \<noteq> None"
  by (simp add: first_match_None_iff category_mappings_def)

lemma categorize_item_no_match:
  "first_match (lower d) category_mappings = None \<Longrightarrow> categorize_item d = ''Groceries''"
  using reusable_bag_rule_unreachable [of d] by (auto simp: categorize_item_def Let_def)

lemma categorize_examples:
  "categorize_item ''2% Milk 1L'' = ''Groceries''"
  "categorize_item ''Reusable Bag'' = ''Household''"
  "categorize_item ''Unknown Widget XYZ'' = ''Groceries''"
  by code_simp+

text \<open>
  Claim C7. A description that contains both "bag" and "reusable" is said to map to Household
  whatever the table order, and a description without any keyword to Groceries. The second
  half holds (\<open>categorize_item_no_match\<close>). The rule for reusable bags stands after the loop
  over the table and "bag" is itself a keyword of the table, so the rule is never reached
  (\<open>reusable_bag_rule_unreachable\<close>), and a keyword of the earlier category wins:
  "Reusable bread bag" is categorized as Groceries.
\<close>

theorem categorize_reusable_bread_bag: "categorize_item ''Reusable bread bag'' = ''Groceries''"
  by code_simp

section \<open>The quantity normalizer: idempotent on plain quantities\<close>





section \<open>The currency normalizer: formatting with the dollar sign is undone\<close>















section \<open>The tax total: the last of the two tax fields wins\<close>

text \<open>
  Claim C1. With both a \<^verbatim>\<open>TotalTax\<close> field and a \<^verbatim>\<open>TaxDetails\<close> breakdown, the
  recorded total tax is said to be the sum of the breakdown, whatever the order of the two
  fields. The source calls the breakdown "preferred if available", but each branch assigns
  \<^verbatim>\<open>total_tax\<close> when its field is visited: with the breakdown (one amount 2.00) first and
  \<^verbatim>\<open>TotalTax\<close> 5.00 second the record says 5.0 next to the amounts [2.0]; in the other
  order it says 2.0.
\<close>

theorem total_tax_follows_field_order:
  "t_tax (transaction (process_receipt_result dec_ops (one_document None None
      [(''TaxDetails'', array_field (Some [object_field [(''Amount'', text_field ''2.00'')]])),
       (''TotalTax'', text_field ''5.00'')]) (Some ''r1''))) = ''5.0''
   \<and> td_total_tax (t_tax_details (transaction (process_receipt_result dec_ops (one_document None None
      [(''TaxDetails'', array_field (Some [object_field [(''Amount'', text_field ''2.00'')]])),
       (''TotalTax'', text_field ''5.00'')]) (Some ''r1'')))) = ''5.0''
   \<and> td_tax_amounts (t_tax_details (transaction (process_receipt_result dec_ops (one_document None None
      [(''TaxDetails'', array_field (Some [object_field [(''Amount'', text_field ''2.00'')]])),
       (''TotalTax'', text_field ''5.00'')]) (Some ''r1'')))) = [2]
   \<and> t_tax (transaction (process_receipt_result dec_ops (one_document None None
      [(''TotalTax'', text_field ''5.00''),
       (''TaxDetails'', array_field (Some [object_field [(''Amount'', text_field ''2.00'')]]))])
      (Some ''r1''))) = ''2.0''"
  by code_simp

section \<open>Results without a document or without fields\<close>

lemma empty_receipt_get_empty_result: "empty_receipt (get_empty_result iid)"
  by (simp add: empty_receipt_def get_empty_result_def)

lemma image_id_get_empty_result: "image_id (get_empty_result iid) = id_or_unknown iid"
  by (simp add: get_empty_result_def id_or_unknown_def)

lemma no_document_result:
  assumes "receipts = None \<or> (\<exists>r. receipts = Some r \<and> (documents r = None \<or> documents r = Some []))"
  shows "process_receipt_result ops receipts iid = get_empty_result iid"
  using assms by (auto simp: process_receipt_result_def process_body_def Let_def)

lemma fields_none_result:
  assumes "receipts = Some r" "documents r = Some (doc # ds)" "doc_fields doc = Attr None"
  shows "process_receipt_result ops receipts iid = get_empty_result iid"
  using assms by (simp add: process_receipt_result_def process_body_def Let_def)

lemma no_fields_result:
  assumes "receipts = Some r" "documents r = Some (doc # ds)"
    "doc_fields doc = NoAttr \<or> doc_fields doc = Attr (Some [])"
  shows "process_receipt_result ops receipts iid
         = (get_empty_result iid)\<lparr>image_id := iid,
              extracted_text := text_or_empty (ar_content r),
              receipt_type := type_or_none (doc_type doc)\<rparr>"
  using assms
  by (auto simp: process_receipt_result_def process_body_def Let_def text_or_empty_def
      type_or_none_def)

text \<open>
  Claim C3, counterexample. A document without fields is said to give the all-default
  receipt, with empty text and absent type. The source sets the text and the type before it
  looks at the fields and returns this "basic result": a result with text "MILK 2.99" whose
  document of type "receipt.retailMeal" has an empty field mapping keeps both.
\<close>

theorem no_fields_keeps_text_and_type:
  "extracted_text (process_receipt_result dec_ops
      (one_document (Some ''MILK 2.99'') (Some ''receipt.retailMeal'') []) (Some ''r1'')) = ''MILK 2.99''
   \<and> receipt_type (process_receipt_result dec_ops
      (one_document (Some ''MILK 2.99'') (Some ''receipt.retailMeal'') []) (Some ''r1''))
     = Some ''receipt.retailMeal''"
  by code_simp

text \<open>
  Claim C3, amended. A result that is absent, or has no document list or an empty one, gives
  the all-default receipt, whose identifier is the given one or "unknown". So does a first
  document whose \<^verbatim>\<open>fields\<close> attribute is \<^verbatim>\<open>None\<close> (through the outer handler). A
  first document without the attribute or with an empty mapping gives the all-default
  receipt except for the identifier as given, the overall text and the document type.
\<close>

theorem empty_result_cases:
  "(receipts = None \<or> (\<exists>r. receipts = Some r \<and> (documents r = None \<or> documents r = Some []))
      \<longrightarrow> process_receipt_result ops receipts iid = get_empty_result iid
          \<and> empty_receipt (process_receipt_result ops receipts iid)
          \<and> image_id (process_receipt_result ops receipts iid) = id_or_unknown iid)
   \<and> (\<forall>r doc ds. receipts = Some r \<and> documents r = Some (doc # ds) \<and> doc_fields doc = Attr None
      \<longrightarrow> process_receipt_result ops receipts iid = get_empty_result iid)
   \<and> (\<forall>r doc ds. receipts = Some r \<and> documents r = Some (doc # ds)
        \<and> (doc_fields doc = NoAttr \<or> doc_fields doc = Attr (Some []))
      \<longrightarrow> process_receipt_result ops receipts iid
            = (get_empty_result iid)\<lparr>image_id := iid,
                 extracted_text := text_or_empty (ar_content r),
                 receipt_type := type_or_none (doc_type doc)\<rparr>)"
proof (intro conjI allI impI)
  assume a: "receipts = None \<or> (\<exists>r. receipts = Some r \<and> (documents r = None \<or> documents r = Some []))"
  then show e: "process_receipt_result ops receipts iid = get_empty_result iid"
    by (rule no_document_result)
  show "empty_receipt (process_receipt_result ops receipts iid)"
    by (simp only: e empty_receipt_get_empty_result)
  show "image_id (process_receipt_result ops receipts iid) = id_or_unknown iid"
    by (simp only: e image_id_get_empty_result)
next
  fix r doc ds
  assume "receipts = Some r \<and> documents r = Some (doc # ds) \<and> doc_fields doc = Attr None"
  then show "process_receipt_result ops receipts iid = get_empty_result iid"
    using fields_none_result by blast
next
  fix r doc ds
  assume "receipts = Some r \<and> documents r = Some (doc # ds)
        \<and> (doc_fields doc = NoAttr \<or> doc_fields doc = Attr (Some []))"
  then show "process_receipt_result ops receipts iid
            = (get_empty_result iid)\<lparr>image_id := iid,
                 extracted_text := text_or_empty (ar_content r),
                 receipt_type := type_or_none (doc_type doc)\<rparr>"
    using no_fields_result by blast
qed

theorem empty_result_cases_witness:
  "process_receipt_result dec_ops (Some \<lparr>ar_content = Some ''x'', documents = Some []\<rparr>) None
     = get_empty_result None
   \<and> image_id (process_receipt_result dec_ops (Some \<lparr>ar_content = Some ''x'', documents = Some []\<rparr>) None)
     = Some ''unknown''
   \<and> process_receipt_result dec_ops
       (Some \<lparr>ar_content = Some ''x'', documents = Some [\<lparr>doc_type = Some ''receipt'', doc_fields = Attr None\<rparr>]\<rparr>)
       (Some ''r1'') = get_empty_result (Some ''r1'')
   \<and> process_receipt_result dec_ops (one_document (Some ''x'') (Some ''receipt'') []) (Some ''r1'')
     = (get_empty_result (Some ''r1''))\<lparr>image_id := Some ''r1'', extracted_text := ''x'',
          receipt_type := Some ''receipt''\<rparr>"
proof -
  let ?r0 = "\<lparr>ar_content = Some ''x'', documents = Some []\<rparr> :: rat analyze_result"
  let ?d1 = "\<lparr>doc_type = Some ''receipt'', doc_fields = Attr None\<rparr> :: rat document"
  let ?r1 = "\<lparr>ar_content = Some ''x'', documents = Some [?d1]\<rparr>"
  let ?d2 = "\<lparr>doc_type = Some ''receipt'', doc_fields = Attr (Some [])\<rparr> :: rat document"
  let ?r2 = "\<lparr>ar_content = Some ''x'', documents = Some [?d2]\<rparr>"
  have a1: "process_receipt_result dec_ops (Some ?r0) None = get_empty_result None"
    using empty_result_cases [of "Some ?r0" dec_ops None] by auto
  have a2: "image_id (process_receipt_result dec_ops (Some ?r0) None) = Some ''unknown''"
    using empty_result_cases [of "Some ?r0" dec_ops None] by (auto simp: id_or_unknown_def)
  have b: "process_receipt_result dec_ops (Some ?r1) (Some ''r1'') = get_empty_result (Some ''r1'')"
    using empty_result_cases [of "Some ?r1" dec_ops "Some ''r1''"] by auto
  have c: "process_receipt_result dec_ops (Some ?r2) (Some ''r1'')
      = (get_empty_result (Some ''r1''))\<lparr>image_id := Some ''r1'', extracted_text := ''x'',
           receipt_type := Some ''receipt''\<rparr>"
    using empty_result_cases [of "Some ?r2" dec_ops "Some ''r1''"]
    by (auto simp: text_or_empty_def type_or_none_def)
  from a1 a2 b c show ?thesis
    unfolding one_document_def by blast
qed

section \<open>The item builder\<close>

subsection \<open>What the blocks of the item builder keep\<close>

lemma infer_price_total_keeps:
  "i_description (infer_price_total ops it) = i_description it"
  "i_tax_status (infer_price_total ops it) = i_tax_status it"
  "i_tax_amount (infer_price_total ops it) = i_tax_amount it"
  "i_final_price (infer_price_total ops it) = i_final_price it"
  by (simp_all add: infer_price_total_def split: option.splits)

lemma item_tax_amount_keeps:
  "i_description (item_tax_amount ops hst rates it) = i_description it"
  "i_tax_status (item_tax_amount ops hst rates it) = i_tax_status it"
  "i_total (item_tax_amount ops hst rates it) = i_total it"
  "i_price (item_tax_amount ops hst rates it) = i_price it"
  "i_quantity (item_tax_amount ops hst rates it) = i_quantity it"
  by (simp_all add: item_tax_amount_def Let_def split: option.splits)

lemma item_savings_shape:
  "item_savings ops it = Inr it' \<Longrightarrow> \<exists>s. it' = it\<lparr>i_savings := s\<rparr>"
  by (auto simp: item_savings_def bind_exn_def split: option.splits sum.splits)
     (metis item.surjective item.update_convs(9))

lemma discount_savings_shape:
  "discount_savings ops obj it = Inr it' \<Longrightarrow> \<exists>d s. it' = it\<lparr>i_discount := d, i_savings := s\<rparr>"
  by (auto simp: discount_savings_def bind_exn_def split: sum.splits dest!: item_savings_shape)


lemma build_item_Inr:
  assumes "build_item ops hst rates f = Inr it" and "i_description it \<noteq> []"
  shows "\<exists>obj it1 d s. value_object f = Attr (Some obj) \<and> read_item ops obj = Inr it1
           \<and> it = (derive_item ops hst rates it1)\<lparr>i_discount := d, i_savings := s\<rparr>"
proof (cases "value_object f")
  case NoAttr
  with assms show ?thesis by (auto simp: build_item_def hasattr_def default_item_def)
next
  case (Attr o1)
  show ?thesis
  proof (cases o1)
    case None
    with Attr assms show ?thesis by (auto simp: build_item_def hasattr_def)
  next
    case (Some obj)
    with Attr assms(1) obtain it1 where r: "read_item ops obj = Inr it1"
      and d: "discount_savings ops obj (derive_item ops hst rates it1) = Inr it"
      by (auto simp: build_item_def hasattr_def bind_exn_def split: sum.splits)
    from discount_savings_shape [OF d] r Attr Some show ?thesis by auto
  qed
qed

lemma derive_item_status:
  "i_tax_status (derive_item ops hst rates it1)
     = item_tax_status hst (i_description (derive_item ops hst rates it1))"
  by (simp add: derive_item_def Let_def item_tax_amount_keeps infer_price_total_keeps)

lemma build_item_status:
  assumes "build_item ops hst rates f = Inr it" and "i_description it \<noteq> []"
  shows "i_tax_status it = item_tax_status hst (i_description it)"
proof -
  from build_item_Inr [OF assms] obtain it1 d s where
    "it = (derive_item ops hst rates it1)\<lparr>i_discount := d, i_savings := s\<rparr>"
    by blast
  then show ?thesis using derive_item_status [of ops hst rates it1] by simp
qed


subsection \<open>Unit price and line total from each other\<close>

text \<open>
  Claim C6, counterexample. On an arithmetic failure "such as zero quantity" the missing side
  is said to stay absent. Only the division is guarded by \<^verbatim>\<open>qty_f > 0\<close>; the product
  needs no guard and is taken for every quantity: unit price 3.00 with quantity "0" and no
  line total gives the line total "0.0".
\<close>

theorem zero_quantity_total_is_derived:
  "items (process_receipt_result dec_ops (one_document None None
      [(''Items'', array_field (Some [object_field
          [(''Description'', text_field ''Bread''), (''Quantity'', text_field ''0''),
           (''Price'', text_field ''3.00'')]]))]) (Some ''r1''))
   = [\<lparr>i_description = ''Bread'', i_quantity = ''0'', i_price = ''3.0'', i_total = ''0.0'',
       i_tax_status = ''UNKNOWN'', i_tax_amount = [], i_final_price = ''0.0'',
       i_discount = [], i_savings = []\<rparr>]"
  by code_simp

lemma inference_examples:
  "items (process_receipt_result dec_ops (one_document None None
      [(''Items'', array_field (Some
         [object_field [(''Description'', text_field ''Bread''), (''Quantity'', text_field ''2''),
                        (''TotalPrice'', text_field ''10.00'')],
          object_field [(''Description'', text_field ''Milk''), (''Quantity'', text_field ''4''),
                        (''Price'', text_field ''3.00'')]]))]) (Some ''r1''))
   = [\<lparr>i_description = ''Bread'', i_quantity = ''2'', i_price = ''5.0'', i_total = ''10.0'',
       i_tax_status = ''UNKNOWN'', i_tax_amount = [], i_final_price = ''10.0'',
       i_discount = [], i_savings = []\<rparr>,
      \<lparr>i_description = ''Milk'', i_quantity = ''4'', i_price = ''3.0'', i_total = ''12.0'',
       i_tax_status = ''UNKNOWN'', i_tax_amount = [], i_final_price = ''12.0'',
       i_discount = [], i_savings = []\<rparr>]"
  by code_simp

text \<open>
  Claim C6, amended. With the line total present, the unit price absent and a quantity that
  reads as a positive number, the unit price is the rounded quotient; with the unit price
  present and the line total absent, the line total is the rounded product for every quantity
  that reads as a number, zero included. With the line total present and a quantity that is
  not positive, with both sides absent, with both present, or with a quantity that does not
  read as a number, the item stays as it is; the function has no exceptional result. The
  witness holds the two examples of the claim: quantity "2" with total 10.0 gives the price
  5.0, price 3.0 with quantity "4" gives the total 12.0.
\<close>

theorem infer_price_total_cases:
  "(i_total it \<noteq> [] \<and> i_price it = [] \<and> i_quantity it \<noteq> []
      \<and> fl_of_str ops (i_quantity it) = Some q \<and> fl_of_str ops (i_total it) = Some t
      \<and> fl_gt_int ops q 0 \<and> fl_div ops t q = Some u
     \<longrightarrow> infer_price_total ops it = it\<lparr>i_price := fl_str ops (fl_round2 ops u)\<rparr>)
   \<and> (i_price it \<noteq> [] \<and> i_total it = [] \<and> i_quantity it \<noteq> []
      \<and> fl_of_str ops (i_quantity it) = Some q \<and> fl_of_str ops (i_price it) = Some p
     \<longrightarrow> infer_price_total ops it = it\<lparr>i_total := fl_str ops (fl_round2 ops (fl_mul ops p q))\<rparr>)
   \<and> (i_total it \<noteq> [] \<and> i_price it = [] \<and> fl_of_str ops (i_quantity it) = Some q
      \<and> \<not> fl_gt_int ops q 0
     \<longrightarrow> infer_price_total ops it = it)
   \<and> (i_price it = [] \<and> i_total it = [] \<longrightarrow> infer_price_total ops it = it)
   \<and> (i_price it \<noteq> [] \<and> i_total it \<noteq> [] \<longrightarrow> infer_price_total ops it = it)
   \<and> (fl_of_str ops (i_quantity it) = None \<longrightarrow> infer_price_total ops it = it)"
  by (auto simp: infer_price_total_def split: option.splits)

theorem infer_price_total_cases_witness:
  "infer_price_total dec_ops (default_item\<lparr>i_description := ''Bread'', i_quantity := ''2'', i_total := ''10.0''\<rparr>)
     = default_item\<lparr>i_description := ''Bread'', i_quantity := ''2'', i_total := ''10.0'', i_price := ''5.0''\<rparr>
   \<and> infer_price_total dec_ops (default_item\<lparr>i_description := ''Bread'', i_quantity := ''4'', i_price := ''3.0''\<rparr>)
     = default_item\<lparr>i_description := ''Bread'', i_quantity := ''4'', i_price := ''3.0'', i_total := ''12.0''\<rparr>"
proof -
  let ?a = "default_item\<lparr>i_description := ''Bread'', i_quantity := ''2'', i_total := ''10.0''\<rparr>"
  let ?b = "default_item\<lparr>i_description := ''Bread'', i_quantity := ''4'', i_price := ''3.0''\<rparr>"
  have a1: "i_total ?a \<noteq> [] \<and> i_price ?a = [] \<and> i_quantity ?a \<noteq> []"
    by (simp add: default_item_def)
  have a2: "fl_of_str dec_ops (i_quantity ?a) = Some 2 \<and> fl_of_str dec_ops (i_total ?a) = Some 10
      \<and> fl_gt_int dec_ops 2 0 \<and> fl_div dec_ops 10 2 = Some 5"
    by code_simp
  have a3: "fl_str dec_ops (fl_round2 dec_ops 5) = ''5.0''" by code_simp
  have a: "infer_price_total dec_ops ?a = ?a\<lparr>i_price := fl_str dec_ops (fl_round2 dec_ops 5)\<rparr>"
    using infer_price_total_cases [of ?a dec_ops 2 10 5] a1 a2 by blast
  have b1: "i_price ?b \<noteq> [] \<and> i_total ?b = [] \<and> i_quantity ?b \<noteq> []"
    by (simp add: default_item_def)
  have b2: "fl_of_str dec_ops (i_quantity ?b) = Some 4 \<and> fl_of_str dec_ops (i_price ?b) = Some 3"
    by code_simp
  have b3: "fl_str dec_ops (fl_round2 dec_ops (fl_mul dec_ops 3 4)) = ''12.0''" by code_simp
  have b: "infer_price_total dec_ops ?b
      = ?b\<lparr>i_total := fl_str dec_ops (fl_round2 dec_ops (fl_mul dec_ops 3 4))\<rparr>"
    using infer_price_total_cases [of ?b dec_ops 4 _ _ 3] b1 b2 by blast
  from a b show ?thesis
    unfolding a3 b3 by (simp add: default_item_def)
qed

subsection \<open>The tax amount of an item\<close>


text \<open>
  The rate list can start with \<^verbatim>\<open>None\<close>, for a tax line without a readable rate. Then
  the product raises, the handler clears the tax amount, and a taxable item of a receipt with
  a regional tax gets no tax amount.
\<close>

lemma absent_rate_blocks_item_tax:
  "items (process_receipt_result dec_ops (one_document None None
      [(''TaxDetails'', array_field (Some [object_field
          [(''Description'', text_field ''HST''), (''Amount'', text_field ''1.30'')]])),
       (''Items'', array_field (Some [object_field
          [(''Description'', text_field ''Bread''), (''TotalPrice'', text_field ''10.00'')]]))])
      (Some ''r1''))
   = [\<lparr>i_description = ''Bread'', i_quantity = ''1'', i_price = ''10.0'', i_total = ''10.0'',
       i_tax_status = ''TAXABLE'', i_tax_amount = [], i_final_price = ''10.0'',
       i_discount = [], i_savings = []\<rparr>]"
  by code_simp



section \<open>The loop over the fields\<close>

subsection \<open>What each field leaves alone\<close>

lemma upd_result [simp]:
  "merchant (result (upd_merchant g st)) = g (merchant (result st))"
  "items (result (upd_merchant g st)) = items (result st)"
  "merchant (result (upd_transaction h st)) = merchant (result st)"
  "items (result (upd_transaction h st)) = items (result st)"
  "merchant (result (upd_payment k st)) = merchant (result st)"
  "items (result (upd_payment k st)) = items (result st)"
  "merchant (result (upd_items l st)) = merchant (result st)"
  "items (result (upd_items l st)) = l (items (result st))"
  by (simp_all add: upd_merchant_def upd_transaction_def upd_payment_def upd_items_def)

lemma upd_locals [simp]:
  "has_hst (upd_items l st) = has_hst st" "tax_rates (upd_items l st) = tax_rates st"
  by (simp_all add: upd_items_def)

lemma for_each_preserves:
  assumes "\<And>x s. P s \<Longrightarrow> P (snd (body x s))" and "P s"
  shows "P (snd (for_each body xs s))"
  using assms(2)
proof (induction xs arbitrary: s)
  case Nil
  then show ?case by simp
next
  case (Cons x xs)
  from assms(1) [OF Cons.prems, of x] have p: "P (snd (body x s))" .
  show ?case
  proof (cases "body x s")
    case (Pair e s')
    with p have "P s'" by simp
    with Pair Cons.IH [of s'] show ?thesis by (cases e) simp_all
  qed
qed

lemma tax_item_step_result: "result (fst (snd (tax_item_step ops x s))) = result (fst s)"
  by (simp add: tax_item_step_def Let_def split: attr.splits option.splits sum.splits)

lemma tax_details_field_result: "result (snd (tax_details_field ops arr st)) = result st"
proof -
  let ?s0 = "(st\<lparr>tax_amounts := [], tax_types := [], tax_rates := []\<rparr>, fl_zero ops)"
  obtain e a b where r: "for_each (tax_item_step ops) arr ?s0 = (e, a, b)"
    using prod_cases3 by blast
  have "result (fst (snd (for_each (tax_item_step ops) arr ?s0))) = result st"
    by (rule for_each_preserves [where P = "\<lambda>s. result (fst s) = result st"])
       (simp_all add: tax_item_step_result)
  with r have "result a = result st" by simp
  with r show ?thesis
    by (cases e) (simp_all add: tax_details_field_def)
qed

lemma payment_step_frame:
  "merchant (result (snd (payment_step ops x st))) = merchant (result st)"
  "items (result (snd (payment_step ops x st))) = items (result st)"
  by (simp_all add: payment_step_def Let_def split: attr.splits option.splits sum.splits)

lemma payment_loop_frame:
  "merchant (result (snd (for_each (payment_step ops) arr st))) = merchant (result st)"
  "items (result (snd (for_each (payment_step ops) arr st))) = items (result st)"
proof -
  show "merchant (result (snd (for_each (payment_step ops) arr st))) = merchant (result st)"
    by (rule for_each_preserves [where P = "\<lambda>s. merchant (result s) = merchant (result st)"])
       (simp_all add: payment_step_frame)
  show "items (result (snd (for_each (payment_step ops) arr st))) = items (result st)"
    by (rule for_each_preserves [where P = "\<lambda>s. items (result s) = items (result st)"])
       (simp_all add: payment_step_frame)
qed



lemma currency_field_frame:
  assumes "\<And>x. g (result (assign x st)) = g (result st)"
  shows "g (result (snd (currency_field ops v assign st))) = g (result st)"
  using assms by (simp add: currency_field_def split: sum.splits option.splits)


lemma built_item_status:
  assumes "build_item ops hst rates f = Inr it" and "i_description it \<noteq> []"
  shows "built_item it"
  using build_item_status [OF assms] assms(2) by (cases hst) (simp_all add: built_item_def)

lemma item_step_items:
  assumes "list_all built_item (items (result st))"
  shows "list_all built_item (items (result (snd (item_step ops x st))))"
  using assms by (auto simp: item_step_def built_item_status split: sum.splits)

lemma item_loop_items:
  assumes "list_all built_item (items (result st))"
  shows "list_all built_item (items (result (snd (for_each (item_step ops) arr st))))"
  by (rule for_each_preserves [where P = "\<lambda>s. list_all built_item (items (result s))"])
     (simp_all add: item_step_items assms)

lemma process_field_items:
  assumes "list_all built_item (items (result st))"
  shows "list_all built_item (items (result (snd (process_field ops nf st))))"
  using assms
  by (simp add: process_field_def Let_def currency_field_frame [where g = items]
      tax_details_field_result payment_loop_frame item_loop_items
      split: attr.splits option.splits)

lemma process_fields_items:
  assumes "list_all built_item (items (result st))"
  shows "list_all built_item (items (result (process_fields ops fs st)))"
  using assms
proof (induction fs arbitrary: st)
  case Nil
  then show ?case by simp
next
  case (Cons nf fs)
  from process_field_items [OF Cons.prems, of ops nf]
  have "list_all built_item (items (result (snd (process_field ops nf st))))" .
  with Cons.IH show ?case
    by (cases "process_field ops nf st") (auto split: option.splits)
qed






lemma preprocess_tax_id_frame:
  "items (result (preprocess_tax_id ops fs st)) = items (result st)"
  "m_name (merchant (result (preprocess_tax_id ops fs st))) = m_name (merchant (result st))"
  by (simp_all add: preprocess_tax_id_def Let_def split: option.splits)

lemma final_tax_details_frame:
  "items (final_tax_details ops st) = items (result st)"
  "merchant (final_tax_details ops st) = merchant (result st)"
  "totals (final_tax_details ops st) = totals (result st)"
  "t_tax (transaction (final_tax_details ops st))
     = td_total_tax (t_tax_details (transaction (final_tax_details ops st)))"
  by (simp_all add: final_tax_details_def Let_def upd_transaction_def)

subsection \<open>The assembled receipt\<close>

lemma item_tax_status_markers:
  "zero_marker d \<Longrightarrow> item_tax_status h d = ''ZERO-RATED''"
  "\<not> zero_marker d \<Longrightarrow> exempt_marker d \<Longrightarrow> item_tax_status h d = ''EXEMPT''"
  "\<not> zero_marker d \<Longrightarrow> \<not> exempt_marker d
     \<Longrightarrow> item_tax_status h d = (if h then ''TAXABLE'' else ''UNKNOWN'')"
  by (simp_all add: item_tax_status_def zero_marker_def exempt_marker_def Let_def)


lemma receipt_items: "list_all built_item (items (process_receipt_result ops receipts iid))"
proof (cases "process_body ops receipts iid")
  case (Inl e)
  then show ?thesis by (simp add: process_receipt_result_def get_empty_result_def)
next
  case (Inr r)
  have "list_all built_item (items r)"
    using Inr
    by (auto simp: process_body_def Let_def get_empty_result_def final_tax_details_frame
        process_fields_items preprocess_tax_id_frame init_locals_def
        split: option.splits list.splits attr.splits if_splits)
  with Inr show ?thesis by (simp add: process_receipt_result_def)
qed





subsection \<open>Zero-rated before exempt\<close>

text \<open>
  Claim C10. An item whose description holds both a zero-rate marker ("zero" or "0%") and
  "exempt", in any case, gets the status ZERO-RATED: the zero-rate test stands first. Both
  keywords override the default, which is TAXABLE when the flag is set and UNKNOWN otherwise.
  The first part speaks of an item as the builder returns it, under the flag \<open>hst\<close> of that
  moment; the second part of every item of every assembled receipt, where the default is one
  of TAXABLE and UNKNOWN.
\<close>

theorem zero_rated_before_exempt:
  "(build_item ops hst rates f = Inr it \<and> i_description it \<noteq> [] \<longrightarrow>
      (zero_marker (i_description it) \<longrightarrow> i_tax_status it = ''ZERO-RATED'')
      \<and> (\<not> zero_marker (i_description it) \<and> exempt_marker (i_description it)
           \<longrightarrow> i_tax_status it = ''EXEMPT'')
      \<and> (\<not> zero_marker (i_description it) \<and> \<not> exempt_marker (i_description it)
           \<longrightarrow> i_tax_status it = (if hst then ''TAXABLE'' else ''UNKNOWN'')))
   \<and> (\<forall>x \<in> set (items (process_receipt_result ops receipts iid)).
        (zero_marker (i_description x) \<longrightarrow> i_tax_status x = ''ZERO-RATED'')
        \<and> (\<not> zero_marker (i_description x) \<and> exempt_marker (i_description x)
             \<longrightarrow> i_tax_status x = ''EXEMPT'')
        \<and> (\<not> zero_marker (i_description x) \<and> \<not> exempt_marker (i_description x)
             \<longrightarrow> i_tax_status x = ''TAXABLE'' \<or> i_tax_status x = ''UNKNOWN''))"
proof (intro conjI impI ballI)
  assume a: "build_item ops hst rates f = Inr it \<and> i_description it \<noteq> []"
  then have s: "i_tax_status it = item_tax_status hst (i_description it)"
    using build_item_status by blast
  show "i_tax_status it = ''ZERO-RATED''" if "zero_marker (i_description it)"
    using that s by (simp add: item_tax_status_markers)
  show "i_tax_status it = ''EXEMPT''"
    if "\<not> zero_marker (i_description it) \<and> exempt_marker (i_description it)"
    using that s by (simp add: item_tax_status_markers)
  show "i_tax_status it = (if hst then ''TAXABLE'' else ''UNKNOWN'')"
    if "\<not> zero_marker (i_description it) \<and> \<not> exempt_marker (i_description it)"
    using that s by (simp add: item_tax_status_markers)
next
  fix x assume "x \<in> set (items (process_receipt_result ops receipts iid))"
  with receipt_items [of ops receipts iid] have b: "built_item x"
    by (simp add: list_all_iff)
  show "i_tax_status x = ''ZERO-RATED''" if "zero_marker (i_description x)"
    using that b by (auto simp: built_item_def item_tax_status_markers)
  show "i_tax_status x = ''EXEMPT''"
    if "\<not> zero_marker (i_description x) \<and> exempt_marker (i_description x)"
    using that b by (auto simp: built_item_def item_tax_status_markers)
  show "i_tax_status x = ''TAXABLE'' \<or> i_tax_status x = ''UNKNOWN''"
    if "\<not> zero_marker (i_description x) \<and> \<not> exempt_marker (i_description x)"
    using that b by (auto simp: built_item_def item_tax_status_markers)
qed

theorem zero_rated_before_exempt_witness:
  "\<exists>it. build_item dec_ops True []
           (object_field [(''Description'', text_field ''Zero-rated exempt milk'')]) = Inr it
     \<and> i_description it = ''Zero-rated exempt milk''
     \<and> zero_marker (i_description it) \<and> exempt_marker (i_description it)
     \<and> i_tax_status it = ''ZERO-RATED''"
proof -
  let ?f = "object_field [(''Description'', text_field ''Zero-rated exempt milk'')] :: rat field"
  define it where "it = \<lparr>i_description = ''Zero-rated exempt milk'', i_quantity = ''1'',
     i_price = [], i_total = [], i_tax_status = ''ZERO-RATED'', i_tax_amount = [],
     i_final_price = [], i_discount = [], i_savings = []\<rparr>"
  have b: "build_item dec_ops True [] ?f = Inr it"
    unfolding it_def by code_simp
  have d: "i_description it = ''Zero-rated exempt milk''" by (simp add: it_def)
  have z: "zero_marker (i_description it)" unfolding d by code_simp
  have x: "exempt_marker (i_description it)" unfolding d by code_simp
  have n: "i_description it \<noteq> []" by (simp add: d)
  from zero_rated_before_exempt [of dec_ops True "[]" ?f it] b n z
  have s: "i_tax_status it = ''ZERO-RATED''" by blast
  from b d z x s show ?thesis by blast
qed

subsection \<open>No exception leaves the assembler\<close>



text \<open>The end-to-end scenario of the specification: no tax fields, one item.\<close>

lemma end_to_end_scenario:
  "process_receipt_result dec_ops (one_document None None
      [(''MerchantName'', text_field ''Corner Store''), (''Total'', text_field ''$15.00''),
       (''Items'', array_field (Some [object_field
          [(''Description'', text_field ''Bread''), (''Quantity'', text_field ''1''),
           (''TotalPrice'', text_field ''$3.00'')]]))]) (Some ''r1'')
   = (get_empty_result (Some ''r1''))
       \<lparr>merchant := \<lparr>m_name = ''Corner Store'', m_address = [], m_phone = [], m_tax_id = [],
                     m_gst_hst_number = []\<rparr>,
        transaction := \<lparr>t_date = [], t_time = [], t_total = ''15.0'', t_subtotal = [], t_tax = [],
           t_tax_details = \<lparr>td_total_tax = [], td_tax_rates = [], td_tax_amounts = [],
              td_tax_types = [], td_has_hst = False\<rparr>\<rparr>,
        items := [\<lparr>i_description = ''Bread'', i_quantity = ''1'', i_price = ''3.0'',
           i_total = ''3.0'', i_tax_status = ''UNKNOWN'', i_tax_amount = [],
           i_final_price = ''3.0'', i_discount = [], i_savings = []\<rparr>]\<rparr>"
  by code_simp

end
